theory Spec2Isabelle
  imports Main
begin

section \<open>Data model of \<open>TouchControllerFake.ts\<close>\<close>

text \<open>
  JavaScript numbers that carry coordinates are kept abstract: the type variable \<open>'n\<close>
  only needs the subtraction the handlers perform. Touch identifiers are WebIDL
  \<open>long\<close> values compared with \<open>===\<close>, modelled as \<open>int\<close>. DOM nodes are an abstract
  type \<open>'e\<close> compared by identity.
\<close>

text \<open>
  \<open>interface FakeTouchFinger { id; x; y }\<close>. The fields carry the prefix \<open>finger_\<close>:
  \<open>id\<close> is a constant of HOL, and \<open>x\<close>, \<open>y\<close> are wanted as variable names.
\<close>

record 'n FakeTouchFinger =
  finger_id :: int
  finger_x :: 'n
  finger_y :: 'n

text \<open>The two fields of \<open>DOMRect\<close> that the handlers read (\<open>left\<close>, \<open>top\<close>).\<close>

record 'n DOMRect =
  rect_left :: 'n
  rect_top :: 'n

text \<open>The fields of a DOM \<open>Touch\<close> that the handlers read.\<close>

record 'n Touch =
  "identifier" :: int
  clientX :: 'n
  clientY :: 'n

record ('n, 'e) TouchEvent =
  target :: 'e
  touches :: "'n Touch list"
  changedTouches :: "'n Touch list"

text \<open>
  The collaborators a handler consults during one invocation, as it finds them at that
  moment: the \<open>VideoPlayer\<close> (\<open>isVideoReady()\<close>, \<open>getVideoElement()\<close>,
  \<open>getVideoParentElement()\<close>), the \<open>CoordinateConverter\<close> (both functions return an
  object with fields \<open>x\<close> and \<open>y\<close>, here a pair) and the constant
  \<open>MouseButton.mainButton\<close>. None of them is defined in this file of the repository, so
  they are parameters.
\<close>

record ('n, 'e) Collaborators =
  isVideoReady :: bool
  getVideoElement :: 'e
  getVideoParentElement :: 'e
  normalizeAndQuantizeUnsigned :: "'n \<Rightarrow> 'n \<Rightarrow> 'n \<times> 'n"
  normalizeAndQuantizeSigned :: "'n \<Rightarrow> 'n \<Rightarrow> 'n \<times> 'n"
  mainButton :: 'n

text \<open>
  What a handler does to the outside, in the order it does it:
  \<^item> \<open>Send name payload\<close> is \<open>toStreamerHandlers.get(name)(payload)\<close>;
  \<^item> \<open>DispatchEvent el type touch\<close> is \<open>el.dispatchEvent(new MouseEvent(type, touch))\<close>;
  \<^item> \<open>PreventDefault\<close> is \<open>preventDefault()\<close> on the touch event being handled.
\<close>

datatype ('n, 'e) effect =
  Send string "'n list"
| DispatchEvent 'e string "'n Touch"
| PreventDefault

text \<open>
  The two \<open>TypeError\<close>s the handlers can raise by themselves: reading a property of
  \<open>changedTouches[0]\<close> when the list is empty, and reading \<open>left\<close> of a
  \<open>videoElementParentClientRect\<close> that was never set.
\<close>

datatype error = FirstTouchUndefined | ClientRectUndefined

text \<open>
  The mutable fields of the class. Both start out \<open>undefined\<close> (\<open>None\<close>); the test
  \<open>this.fakeTouchFinger == null\<close> holds for \<open>undefined\<close> and for \<open>null\<close>.
\<close>

record 'n TouchControllerFake =
  fakeTouchFinger :: "'n FakeTouchFinger option"
  videoElementParentClientRect :: "'n DOMRect option"

type_synonym ('n, 'e) outcome = "error + 'n TouchControllerFake \<times> ('n, 'e) effect list"

definition initial :: "'n TouchControllerFake" where
  "initial = \<lparr>fakeTouchFinger = None, videoElementParentClientRect = None\<rparr>"

section \<open>The operations\<close>

definition setVideoElementParentClientRect ::
  "'n DOMRect \<Rightarrow> 'n TouchControllerFake \<Rightarrow> 'n TouchControllerFake" where
  "setVideoElementParentClientRect rect this = this\<lparr>videoElementParentClientRect := Some rect\<rparr>"

text \<open>
  \<open>onTouchStart\<close>. The object literal is evaluated field by field before the
  assignment, so \<open>first_touch.identifier\<close> raises first when the list is empty, then
  \<open>this.videoElementParentClientRect.left\<close> when the rect is unset; in both cases
  nothing has been changed or emitted yet.
\<close>

definition onTouchStart ::
  "('n::minus, 'e) Collaborators \<Rightarrow> 'n TouchControllerFake \<Rightarrow> ('n, 'e) TouchEvent
     \<Rightarrow> ('n, 'e) outcome" where
  "onTouchStart c this touch =
     (if \<not> isVideoReady c \<or> target touch \<noteq> getVideoElement c then Inr (this, [])
      else case fakeTouchFinger this of
        Some _ \<Rightarrow> Inr (this, [PreventDefault])
      | None \<Rightarrow>
          (case changedTouches touch of
             [] \<Rightarrow> Inl FirstTouchUndefined
           | first_touch # _ \<Rightarrow>
               (case videoElementParentClientRect this of
                  None \<Rightarrow> Inl ClientRectUndefined
                | Some rect \<Rightarrow>
                    let finger = \<lparr>finger_id = identifier first_touch,
                                  finger_x = clientX first_touch - rect_left rect,
                                  finger_y = clientY first_touch - rect_top rect\<rparr>;
                        coord = normalizeAndQuantizeUnsigned c (finger_x finger) (finger_y finger)
                    in Inr (this\<lparr>fakeTouchFinger := Some finger\<rparr>,
                            [DispatchEvent (getVideoParentElement c) ''mouseenter'' first_touch,
                             Send ''MouseDown'' [mainButton c, fst coord, snd coord],
                             PreventDefault]))))"

text \<open>
  The \<open>for\<close> loop of \<open>onTouchEnd\<close> over \<open>changedTouches\<close>, from index \<open>t\<close> on: the
  first touch with the tracked identifier is handled and the loop breaks.
\<close>

fun onTouchEnd_loop ::
  "('n::minus, 'e) Collaborators \<Rightarrow> 'n TouchControllerFake \<Rightarrow> 'n FakeTouchFinger
     \<Rightarrow> 'n Touch list \<Rightarrow> ('n, 'e) outcome" where
  "onTouchEnd_loop c this finger [] = Inr (this, [])"
| "onTouchEnd_loop c this finger (touch # rest) =
     (if identifier touch = finger_id finger then
        (case videoElementParentClientRect this of
           None \<Rightarrow> Inl ClientRectUndefined
         | Some rect \<Rightarrow>
             let x = clientX touch - rect_left rect;
                 y = clientY touch - rect_top rect;
                 coord = normalizeAndQuantizeUnsigned c x y
             in Inr (this\<lparr>fakeTouchFinger := None\<rparr>,
                     [Send ''MouseUp'' [mainButton c, fst coord, snd coord],
                      DispatchEvent (getVideoParentElement c) ''mouseleave'' touch]))
      else onTouchEnd_loop c this finger rest)"

definition onTouchEnd ::
  "('n::minus, 'e) Collaborators \<Rightarrow> 'n TouchControllerFake \<Rightarrow> ('n, 'e) TouchEvent
     \<Rightarrow> ('n, 'e) outcome" where
  "onTouchEnd c this touchEvent =
     (if \<not> isVideoReady c then Inr (this, [])
      else case fakeTouchFinger this of
        None \<Rightarrow> Inr (this, [])
      | Some finger \<Rightarrow>
          (case onTouchEnd_loop c this finger (changedTouches touchEvent) of
             Inl e \<Rightarrow> Inl e
           | Inr (this', effs) \<Rightarrow> Inr (this', effs @ [PreventDefault])))"

text \<open>The \<open>for\<close> loop of \<open>onTouchMove\<close> over \<open>touches\<close>.\<close>

fun onTouchMove_loop ::
  "('n::minus, 'e) Collaborators \<Rightarrow> 'n TouchControllerFake \<Rightarrow> 'n FakeTouchFinger
     \<Rightarrow> 'n Touch list \<Rightarrow> ('n, 'e) outcome" where
  "onTouchMove_loop c this finger [] = Inr (this, [])"
| "onTouchMove_loop c this finger (touch # rest) =
     (if identifier touch = finger_id finger then
        (case videoElementParentClientRect this of
           None \<Rightarrow> Inl ClientRectUndefined
         | Some rect \<Rightarrow>
             let x = clientX touch - rect_left rect;
                 y = clientY touch - rect_top rect;
                 coord = normalizeAndQuantizeUnsigned c x y;
                 delta = normalizeAndQuantizeSigned c (x - finger_x finger) (y - finger_y finger)
             in Inr (this\<lparr>fakeTouchFinger := Some (finger\<lparr>finger_x := x, finger_y := y\<rparr>)\<rparr>,
                     [Send ''MouseMove'' [fst coord, snd coord, fst delta, snd delta]]))
      else onTouchMove_loop c this finger rest)"

definition onTouchMove ::
  "('n::minus, 'e) Collaborators \<Rightarrow> 'n TouchControllerFake \<Rightarrow> ('n, 'e) TouchEvent
     \<Rightarrow> ('n, 'e) outcome" where
  "onTouchMove c this touchEvent =
     (if \<not> isVideoReady c then Inr (this, [])
      else case fakeTouchFinger this of
        None \<Rightarrow> Inr (this, [])
      | Some finger \<Rightarrow>
          (case onTouchMove_loop c this finger (touches touchEvent) of
             Inl e \<Rightarrow> Inl e
           | Inr (this', effs) \<Rightarrow> Inr (this', effs @ [PreventDefault])))"

section \<open>Sequences of calls\<close>

text \<open>
  What reaches the object from outside: the three document listeners and the setter.
  Each call comes with the collaborators as they are when it arrives, so readiness and
  the converter may change from one event to the next.
\<close>

datatype ('n, 'e) call =
  TouchStart "('n, 'e) TouchEvent"
| TouchMove "('n, 'e) TouchEvent"
| TouchEnd "('n, 'e) TouchEvent"
| SetRect "'n DOMRect"

fun handle ::
  "('n::minus, 'e) Collaborators \<Rightarrow> 'n TouchControllerFake \<Rightarrow> ('n, 'e) call
     \<Rightarrow> ('n, 'e) outcome" where
  "handle c this (TouchStart ev) = onTouchStart c this ev"
| "handle c this (TouchMove ev) = onTouchMove c this ev"
| "handle c this (TouchEnd ev) = onTouchEnd c this ev"
| "handle c this (SetRect rect) = Inr (setVideoElementParentClientRect rect this, [])"

text \<open>
  A handler that raises has changed nothing before the raise, and the document goes on
  delivering events: the object after a raise is the object before it.
\<close>

definition after :: "'n TouchControllerFake \<Rightarrow> ('n, 'e) outcome \<Rightarrow> 'n TouchControllerFake" where
  "after this r = (case r of Inl _ \<Rightarrow> this | Inr (this', _) \<Rightarrow> this')"

fun run ::
  "'n TouchControllerFake \<Rightarrow> (('n::minus, 'e) Collaborators \<times> ('n, 'e) call) list
     \<Rightarrow> 'n TouchControllerFake" where
  "run this [] = this"
| "run this ((c, ev) # rest) = run (after this (handle c this ev)) rest"

text \<open>The outcome of every call of a sequence, in order.\<close>

fun outcomes ::
  "'n TouchControllerFake \<Rightarrow> (('n::minus, 'e) Collaborators \<times> ('n, 'e) call) list
     \<Rightarrow> ('n, 'e) outcome list" where
  "outcomes this [] = []"
| "outcomes this ((c, ev) # rest) =
     handle c this ev # outcomes (after this (handle c this ev)) rest"

text \<open>The protocol messages among the effects of an outcome.\<close>

fun is_Send :: "('n, 'e) effect \<Rightarrow> bool" where
  "is_Send (Send _ _) = True"
| "is_Send _ = False"

definition messages :: "('n, 'e) outcome \<Rightarrow> ('n, 'e) effect list" where
  "messages r = (case r of Inl _ \<Rightarrow> [] | Inr (_, effs) \<Rightarrow> filter is_Send effs)"

section \<open>The guards, and the order of calls\<close>

text \<open>
  The condition under which a handler goes past its first \<open>return\<close>: line 64 for
  \<open>onTouchStart\<close>, line 114 for \<open>onTouchMove\<close>, line 90 for \<open>onTouchEnd\<close>. The setter
  is not a touch event.
\<close>

fun passes_guards ::
  "('n, 'e) Collaborators \<Rightarrow> 'n TouchControllerFake \<Rightarrow> ('n, 'e) call \<Rightarrow> bool" where
  "passes_guards c this (TouchStart ev) =
     (\<not> (\<not> isVideoReady c \<or> target ev \<noteq> getVideoElement c))"
| "passes_guards c this (TouchMove ev) =
     (\<not> (\<not> isVideoReady c \<or> fakeTouchFinger this = None))"
| "passes_guards c this (TouchEnd ev) =
     (\<not> (\<not> isVideoReady c \<or> fakeTouchFinger this = None))"
| "passes_guards c this (SetRect rect) = False"

text \<open>
  The precondition on a sequence of calls made on the object \<open>this\<close>: no touch event
  passes its guards before \<open>setVideoElementParentClientRect\<close> has been called (a
  sequence in which no touch event ever passes its guards satisfies it).
\<close>

fun rect_set_before_guarded_touch ::
  "'n TouchControllerFake \<Rightarrow> (('n::minus, 'e) Collaborators \<times> ('n, 'e) call) list \<Rightarrow> bool" where
  "rect_set_before_guarded_touch this [] = True"
| "rect_set_before_guarded_touch this ((c, SetRect rect) # rest) = True"
| "rect_set_before_guarded_touch this ((c, ev) # rest) =
     (\<not> passes_guards c this ev \<and>
      rect_set_before_guarded_touch (after this (handle c this ev)) rest)"

section \<open>Example inputs\<close>

text \<open>
  Concrete inputs for the examples below, with \<open>int\<close> coordinates and DOM nodes named
  by strings. The example converter returns its arguments as they are
  (\<open>Pair x y = (x, y)\<close>), and the main button is \<open>0\<close>.
\<close>

abbreviation ready_player ::
  "'e \<Rightarrow> 'e \<Rightarrow> ('n \<Rightarrow> 'n \<Rightarrow> 'n \<times> 'n) \<Rightarrow> ('n \<Rightarrow> 'n \<Rightarrow> 'n \<times> 'n) \<Rightarrow> 'n
     \<Rightarrow> ('n, 'e) Collaborators" where
  "ready_player video parent nu ns mb \<equiv>
     \<lparr>isVideoReady = True, getVideoElement = video, getVideoParentElement = parent,
      normalizeAndQuantizeUnsigned = nu, normalizeAndQuantizeSigned = ns, mainButton = mb\<rparr>"

abbreviation example_player :: "bool \<Rightarrow> (int, string) Collaborators" where
  "example_player ready \<equiv>
     \<lparr>isVideoReady = ready, getVideoElement = ''video'', getVideoParentElement = ''parent'',
      normalizeAndQuantizeUnsigned = Pair, normalizeAndQuantizeSigned = Pair, mainButton = 0\<rparr>"

abbreviation example_rect :: "int DOMRect" where
  "example_rect \<equiv> \<lparr>rect_left = 10, rect_top = 20\<rparr>"

abbreviation example_finger :: "int FakeTouchFinger" where
  "example_finger \<equiv> \<lparr>finger_id = 7, finger_x = 100, finger_y = 100\<rparr>"

abbreviation example_idle :: "int TouchControllerFake" where
  "example_idle \<equiv> \<lparr>fakeTouchFinger = None, videoElementParentClientRect = Some example_rect\<rparr>"

abbreviation example_tracking :: "int TouchControllerFake" where
  "example_tracking \<equiv>
     \<lparr>fakeTouchFinger = Some example_finger, videoElementParentClientRect = Some example_rect\<rparr>"

abbreviation example_touch :: "int \<Rightarrow> int \<Rightarrow> int \<Rightarrow> int Touch" where
  "example_touch i cx cy \<equiv> \<lparr>identifier = i, clientX = cx, clientY = cy\<rparr>"

text \<open>An event whose \<open>touches\<close> and \<open>changedTouches\<close> are the same list.\<close>

abbreviation example_event :: "'e \<Rightarrow> 'n Touch list \<Rightarrow> ('n, 'e) TouchEvent" where
  "example_event el ts \<equiv> \<lparr>target = el, touches = ts, changedTouches = ts\<rparr>"

text \<open>
  Two calls that take the initial object to \<open>example_tracking\<close>: the rect is set, then
  finger 7 goes down on the video at client \<open>(110, 120)\<close>.
\<close>

abbreviation example_calls :: "((int, string) Collaborators \<times> (int, string) call) list" where
  "example_calls \<equiv>
     [(example_player True, SetRect example_rect),
      (example_player True, TouchStart (example_event ''video'' [example_touch 7 110 120]))]"

section \<open>The two loops\<close>

lemma onTouchMove_loop_no_match:
  "\<forall>t\<in>set ts. identifier t \<noteq> finger_id finger \<Longrightarrow>
   onTouchMove_loop c this finger ts = Inr (this, [])"
  by (induction ts) simp_all

lemma onTouchMove_loop_first_match:
  assumes "\<forall>u\<in>set pre. identifier u \<noteq> finger_id finger"
    and "identifier t = finger_id finger"
    and "videoElementParentClientRect this = Some rect"
  shows "onTouchMove_loop c this finger (pre @ t # post) =
     Inr (this\<lparr>fakeTouchFinger := Some (finger\<lparr>finger_x := clientX t - rect_left rect,
                                                finger_y := clientY t - rect_top rect\<rparr>)\<rparr>,
          [Send ''MouseMove''
            [fst (normalizeAndQuantizeUnsigned c (clientX t - rect_left rect) (clientY t - rect_top rect)),
             snd (normalizeAndQuantizeUnsigned c (clientX t - rect_left rect) (clientY t - rect_top rect)),
             fst (normalizeAndQuantizeSigned c (clientX t - rect_left rect - finger_x finger)
                    (clientY t - rect_top rect - finger_y finger)),
             snd (normalizeAndQuantizeSigned c (clientX t - rect_left rect - finger_x finger)
                    (clientY t - rect_top rect - finger_y finger))]])"
  using assms by (induction pre) (simp_all add: Let_def)

lemma onTouchEnd_loop_no_match:
  "\<forall>t\<in>set ts. identifier t \<noteq> finger_id finger \<Longrightarrow>
   onTouchEnd_loop c this finger ts = Inr (this, [])"
  by (induction ts) simp_all

lemma onTouchEnd_loop_first_match:
  assumes "\<forall>u\<in>set pre. identifier u \<noteq> finger_id finger"
    and "identifier t = finger_id finger"
    and "videoElementParentClientRect this = Some rect"
  shows "onTouchEnd_loop c this finger (pre @ t # post) =
     Inr (this\<lparr>fakeTouchFinger := None\<rparr>,
          [Send ''MouseUp''
            [mainButton c,
             fst (normalizeAndQuantizeUnsigned c (clientX t - rect_left rect) (clientY t - rect_top rect)),
             snd (normalizeAndQuantizeUnsigned c (clientX t - rect_left rect) (clientY t - rect_top rect))],
           DispatchEvent (getVideoParentElement c) ''mouseleave'' t])"
  using assms by (induction pre) (simp_all add: Let_def)

text \<open>
  What a loop can return: the object as it was, or the object with the finger moved
  (same id) or released (some touch of the list had the id); it raises only on an unset
  rect.
\<close>

lemma onTouchMove_loop_result:
  "onTouchMove_loop c this finger ts = Inr (this', effs) \<Longrightarrow>
   videoElementParentClientRect this' = videoElementParentClientRect this \<and>
   (this' = this \<or> (\<exists>g. fakeTouchFinger this' = Some g \<and> finger_id g = finger_id finger))"
  by (induction ts) (auto simp: Let_def split: if_splits option.splits)

lemma onTouchEnd_loop_result:
  "onTouchEnd_loop c this finger ts = Inr (this', effs) \<Longrightarrow>
   videoElementParentClientRect this' = videoElementParentClientRect this \<and>
   (this' = this \<or>
    (fakeTouchFinger this' = None \<and> (\<exists>t\<in>set ts. identifier t = finger_id finger)))"
  by (induction ts) (auto simp: Let_def split: if_splits option.splits)

lemma onTouchMove_loop_error:
  "onTouchMove_loop c this finger ts = Inl e \<Longrightarrow>
   e = ClientRectUndefined \<and> videoElementParentClientRect this = None"
  by (induction ts) (auto simp: Let_def split: if_splits option.splits)

lemma onTouchEnd_loop_error:
  "onTouchEnd_loop c this finger ts = Inl e \<Longrightarrow>
   e = ClientRectUndefined \<and> videoElementParentClientRect this = None"
  by (induction ts) (auto simp: Let_def split: if_splits option.splits)

section \<open>One call\<close>

lemma handle_rect:
  "videoElementParentClientRect (after this (handle c this call)) =
     (case call of SetRect rect \<Rightarrow> Some rect | _ \<Rightarrow> videoElementParentClientRect this)"
  by (cases call)
    (auto simp: after_def onTouchStart_def onTouchMove_def onTouchEnd_def Let_def
       setVideoElementParentClientRect_def
       dest: onTouchMove_loop_result onTouchEnd_loop_result
       split: sum.splits option.splits list.splits)

lemma handle_rect_error:
  "handle c this call = Inl ClientRectUndefined \<Longrightarrow> videoElementParentClientRect this = None"
  by (cases call)
    (auto simp: onTouchStart_def onTouchMove_def onTouchEnd_def Let_def
       dest: onTouchMove_loop_error onTouchEnd_loop_error
       split: sum.splits option.splits list.splits if_splits)

lemma handle_release:
  assumes "fakeTouchFinger this = Some finger"
    and "fakeTouchFinger (after this (handle c this call)) = None"
  shows "\<exists>ev. call = TouchEnd ev \<and> isVideoReady c \<and>
           (\<exists>t\<in>set (changedTouches ev). identifier t = finger_id finger)"
  using assms
  by (cases call)
    (auto simp: after_def onTouchStart_def onTouchMove_def onTouchEnd_def Let_def
       setVideoElementParentClientRect_def
       dest: onTouchMove_loop_result onTouchEnd_loop_result
       split: sum.splits option.splits list.splits if_splits)

lemma handle_keeps_id:
  assumes "fakeTouchFinger this = Some finger"
    and "fakeTouchFinger (after this (handle c this call)) = Some g"
  shows "finger_id g = finger_id finger"
  using assms
  by (cases call)
    (auto simp: after_def onTouchStart_def onTouchMove_def onTouchEnd_def Let_def
       setVideoElementParentClientRect_def
       dest: onTouchMove_loop_result onTouchEnd_loop_result
       split: sum.splits option.splits list.splits if_splits)

lemma handle_creates:
  assumes "fakeTouchFinger this = None"
    and "fakeTouchFinger (after this (handle c this call)) = Some g"
  shows "\<exists>ev. call = TouchStart ev \<and> isVideoReady c \<and> target ev = getVideoElement c \<and>
           changedTouches ev \<noteq> [] \<and> finger_id g = identifier (hd (changedTouches ev))"
  using assms
  by (cases call)
    (auto simp: after_def onTouchStart_def onTouchMove_def onTouchEnd_def Let_def
       setVideoElementParentClientRect_def
       split: sum.splits option.splits list.splits if_splits)

lemma handle_tracking_has_rect:
  assumes "fakeTouchFinger this \<noteq> None \<longrightarrow> videoElementParentClientRect this \<noteq> None"
  shows "fakeTouchFinger (after this (handle c this call)) \<noteq> None \<longrightarrow>
         videoElementParentClientRect (after this (handle c this call)) \<noteq> None"
  using assms
  by (cases call)
    (auto simp: after_def onTouchStart_def onTouchMove_def onTouchEnd_def Let_def
       setVideoElementParentClientRect_def
       dest: onTouchMove_loop_result onTouchEnd_loop_result
       split: sum.splits option.splits list.splits if_splits)

lemma ignored_call:
  assumes "fakeTouchFinger this = None \<or> \<not> isVideoReady c"
    and "case call of TouchStart ev \<Rightarrow> \<not> isVideoReady c \<or> target ev \<noteq> getVideoElement c
          | TouchMove ev \<Rightarrow> True | TouchEnd ev \<Rightarrow> True | SetRect rect \<Rightarrow> False"
  shows "handle c this call = Inr (this, [])"
  using assms
  by (cases call) (auto simp: onTouchStart_def onTouchMove_def onTouchEnd_def)

lemma onTouchMove_suppresses:
  assumes "fakeTouchFinger this = Some finger"
    and "isVideoReady c"
    and "videoElementParentClientRect this \<noteq> None"
  shows "\<exists>this' effs. onTouchMove c this ev = Inr (this', effs @ [PreventDefault])"
proof (cases "onTouchMove_loop c this finger (touches ev)")
  case (Inl e)
  with assms show ?thesis by (auto dest: onTouchMove_loop_error)
next
  case (Inr r)
  with assms show ?thesis by (cases r) (simp add: onTouchMove_def)
qed

lemma onTouchEnd_suppresses:
  assumes "fakeTouchFinger this = Some finger"
    and "isVideoReady c"
    and "videoElementParentClientRect this \<noteq> None"
  shows "\<exists>this' effs. onTouchEnd c this ev = Inr (this', effs @ [PreventDefault])"
proof (cases "onTouchEnd_loop c this finger (changedTouches ev)")
  case (Inl e)
  with assms show ?thesis by (auto dest: onTouchEnd_loop_error)
next
  case (Inr r)
  with assms show ?thesis by (cases r) (simp add: onTouchEnd_def)
qed

lemma onTouchMove_keeps_id:
  assumes "fakeTouchFinger this = Some finger"
  shows "\<exists>g. fakeTouchFinger (after this (onTouchMove c this ev)) = Some g \<and>
             finger_id g = finger_id finger"
  using assms
  by (auto simp: after_def onTouchMove_def dest: onTouchMove_loop_result
        split: sum.splits option.splits)

section \<open>Runs\<close>

lemma run_append: "run this (xs @ ys) = run (run this xs) ys"
  by (induction xs arbitrary: this) auto

lemma reachable_tracking_has_rect:
  "fakeTouchFinger (run initial calls) \<noteq> None \<longrightarrow>
   videoElementParentClientRect (run initial calls) \<noteq> None"
proof (induction calls rule: rev_induct)
  case Nil
  show ?case by (simp add: initial_def)
next
  case (snoc x calls)
  obtain c call where x: "x = (c, call)" by (cases x)
  show ?case
    using handle_tracking_has_rect [OF snoc.IH, of c call]
    by (simp add: run_append x)
qed

lemma ignored_calls:
  assumes "\<forall>(c, call)\<in>set calls. (fakeTouchFinger this = None \<or> \<not> isVideoReady c) \<and>
        (case call of TouchStart ev \<Rightarrow> \<not> isVideoReady c \<or> target ev \<noteq> getVideoElement c
          | TouchMove ev \<Rightarrow> True | TouchEnd ev \<Rightarrow> True | SetRect rect \<Rightarrow> False)"
  shows "run this calls = this \<and> outcomes this calls = replicate (length calls) (Inr (this, []))"
  using assms
proof (induction calls)
  case Nil
  show ?case by simp
next
  case (Cons x calls)
  obtain c call where x: "x = (c, call)" by (cases x)
  have "handle c this call = Inr (this, [])"
    using Cons.prems x by (intro ignored_call) auto
  then show ?case
    using Cons x by (simp add: after_def)
qed

lemma no_rect_error_once_set:
  "videoElementParentClientRect this \<noteq> None \<Longrightarrow>
   Inl ClientRectUndefined \<notin> set (outcomes this calls)"
proof (induction calls arbitrary: this)
  case Nil
  show ?case by simp
next
  case (Cons x calls)
  obtain c call where x: "x = (c, call)" by (cases x)
  have "videoElementParentClientRect (after this (handle c this call)) \<noteq> None"
    using Cons.prems by (simp add: handle_rect split: call.splits)
  then have "Inl ClientRectUndefined \<notin> set (outcomes (after this (handle c this call)) calls)"
    by (rule Cons.IH)
  moreover have "handle c this call \<noteq> Inl ClientRectUndefined"
    using Cons.prems by (auto dest: handle_rect_error)
  ultimately show ?case by (simp add: x)
qed

lemma no_rect_error_before_set:
  "fakeTouchFinger this = None \<Longrightarrow> rect_set_before_guarded_touch this calls \<Longrightarrow>
   Inl ClientRectUndefined \<notin> set (outcomes this calls)"
proof (induction calls arbitrary: this)
  case Nil
  show ?case by simp
next
  case (Cons x calls)
  obtain c call where x: "x = (c, call)" by (cases x)
  show ?case
  proof (cases call)
    case (SetRect rect)
    then show ?thesis
      using no_rect_error_once_set [of "setVideoElementParentClientRect rect this" calls]
      by (simp add: x after_def setVideoElementParentClientRect_def)
  next
    case (TouchStart ev)
    then have h: "handle c this call = Inr (this, [])"
      using Cons.prems by (simp add: x onTouchStart_def)
    show ?thesis
      using Cons.IH [of this] Cons.prems h TouchStart by (simp add: x after_def)
  next
    case (TouchMove ev)
    then have h: "handle c this call = Inr (this, [])"
      using Cons.prems by (simp add: x onTouchMove_def)
    show ?thesis
      using Cons.IH [of this] Cons.prems h TouchMove by (simp add: x after_def)
  next
    case (TouchEnd ev)
    then have h: "handle c this call = Inr (this, [])"
      using Cons.prems by (simp add: x onTouchEnd_def)
    show ?thesis
      using Cons.IH [of this] Cons.prems h TouchEnd by (simp add: x after_def)
  qed
qed

lemma tracked_finger_origin:
  "fakeTouchFinger (run initial calls) = Some finger \<Longrightarrow>
   \<exists>k c ev. k < length calls \<and> calls ! k = (c, TouchStart ev) \<and>
     fakeTouchFinger (run initial (take k calls)) = None \<and>
     changedTouches ev \<noteq> [] \<and>
     identifier (hd (changedTouches ev)) = finger_id finger \<and>
     (\<forall>j. k < j \<and> j \<le> length calls \<longrightarrow>
        (\<exists>g. fakeTouchFinger (run initial (take j calls)) = Some g \<and>
             finger_id g = finger_id finger))"
proof (induction calls arbitrary: finger rule: rev_induct)
  case Nil
  then show ?case by (simp add: initial_def)
next
  case (snoc x calls)
  obtain c call where x: "x = (c, call)" by (cases x)
  let ?s = "run initial calls"
  have fin: "fakeTouchFinger (after ?s (handle c ?s call)) = Some finger"
    using snoc.prems by (simp add: run_append x)
  show ?case
  proof (cases "fakeTouchFinger ?s")
    case None
    from handle_creates [OF None fin] obtain ev where
      ev: "call = TouchStart ev" "changedTouches ev \<noteq> []"
        "finger_id finger = identifier (hd (changedTouches ev))"
      by blast
    have last: "\<forall>j. length calls < j \<and> j \<le> length (calls @ [x]) \<longrightarrow>
         (\<exists>g. fakeTouchFinger (run initial (take j (calls @ [x]))) = Some g \<and>
              finger_id g = finger_id finger)"
      using snoc.prems by auto
    have "length calls < length (calls @ [x]) \<and> (calls @ [x]) ! length calls = (c, TouchStart ev) \<and>
      fakeTouchFinger (run initial (take (length calls) (calls @ [x]))) = None \<and>
      changedTouches ev \<noteq> [] \<and>
      identifier (hd (changedTouches ev)) = finger_id finger"
      using None ev x by simp
    with last show ?thesis by blast
  next
    case (Some f)
    have same: "finger_id finger = finger_id f"
      using handle_keeps_id [OF Some fin] .
    from snoc.IH [OF Some] obtain k c' ev where
      k: "k < length calls" "calls ! k = (c', TouchStart ev)"
        "fakeTouchFinger (run initial (take k calls)) = None"
        "changedTouches ev \<noteq> []"
        "identifier (hd (changedTouches ev)) = finger_id f"
      and later: "\<forall>j. k < j \<and> j \<le> length calls \<longrightarrow>
        (\<exists>g. fakeTouchFinger (run initial (take j calls)) = Some g \<and>
             finger_id g = finger_id f)"
      by blast
    have later': "\<forall>j. k < j \<and> j \<le> length (calls @ [x]) \<longrightarrow>
         (\<exists>g. fakeTouchFinger (run initial (take j (calls @ [x]))) = Some g \<and>
              finger_id g = finger_id finger)"
    proof (intro allI impI)
      fix j
      assume j: "k < j \<and> j \<le> length (calls @ [x])"
      show "\<exists>g. fakeTouchFinger (run initial (take j (calls @ [x]))) = Some g \<and>
              finger_id g = finger_id finger"
      proof (cases "j \<le> length calls")
        case True
        with j later same show ?thesis by simp
      next
        case False
        with j have "take j (calls @ [x]) = calls @ [x]" by simp
        with snoc.prems show ?thesis by simp
      qed
    qed
    have "k < length (calls @ [x]) \<and> (calls @ [x]) ! k = (c', TouchStart ev) \<and>
      fakeTouchFinger (run initial (take k (calls @ [x]))) = None \<and>
      changedTouches ev \<noteq> [] \<and>
      identifier (hd (changedTouches ev)) = finger_id finger"
      using k same by (simp add: nth_append)
    with later' show ?thesis by blast
  qed
qed

section \<open>Properties\<close>

subsection \<open>Touch-start\<close>

text \<open>
  C1, as the code has it: in a state that tracks no finger \<^emph>\<open>and in which the cached
  rect has been set\<close>, to \<open>rect\<close>, with the video ready, a touch-start whose target is
  the video element and whose changed-touch list is not empty makes the object track
  the first changed touch: id its identifier,
  position \<open>(clientX - rect.left, clientY - rect.top)\<close>. The handler dispatches one
  \<open>mouseenter\<close> built from that touch on the video's parent element, sends one
  \<open>MouseDown\<close> with payload \<open>[mainButton, u.x, u.y]\<close>, \<open>u\<close> being
  \<open>normalizeAndQuantizeUnsigned\<close> of that position, and suppresses the default
  behaviour; it does nothing else.
\<close>

theorem C1_touch_start_accepted:
  assumes "fakeTouchFinger this = None"
    and "isVideoReady c"
    and "target touch = getVideoElement c"
    and "changedTouches touch \<noteq> []"
    and "videoElementParentClientRect this = Some rect"
  shows "onTouchStart c this touch =
     Inr (this\<lparr>fakeTouchFinger := Some
             \<lparr>finger_id = identifier (hd (changedTouches touch)),
              finger_x = clientX (hd (changedTouches touch)) - rect_left rect,
              finger_y = clientY (hd (changedTouches touch)) - rect_top rect\<rparr>\<rparr>,
          [DispatchEvent (getVideoParentElement c) ''mouseenter'' (hd (changedTouches touch)),
           Send ''MouseDown''
             [mainButton c,
              fst (normalizeAndQuantizeUnsigned c
                     (clientX (hd (changedTouches touch)) - rect_left rect)
                     (clientY (hd (changedTouches touch)) - rect_top rect)),
              snd (normalizeAndQuantizeUnsigned c
                     (clientX (hd (changedTouches touch)) - rect_left rect)
                     (clientY (hd (changedTouches touch)) - rect_top rect))],
           PreventDefault])"
  using assms by (cases "changedTouches touch") (simp_all add: onTouchStart_def Let_def)

text \<open>
  The claim for every state that tracks no finger fails: in the initial state the rect is
  unset, and a touch-start with finger 7 on the ready video raises at the read of
  \<open>this.videoElementParentClientRect.left\<close>; no finger is tracked afterwards and
  nothing is dispatched or sent.
\<close>

theorem C1_touch_start_unset_rect_counterexample:
  "fakeTouchFinger (initial :: int TouchControllerFake) = None \<and>
   isVideoReady (example_player True) \<and>
   target (example_event ''video'' [example_touch 7 110 120]) =
     getVideoElement (example_player True) \<and>
   changedTouches (example_event ''video'' [example_touch 7 110 120]) \<noteq> [] \<and>
   onTouchStart (example_player True) initial
     (example_event ''video'' [example_touch 7 110 120]) = Inl ClientRectUndefined \<and>
   fakeTouchFinger
     (after initial
        (onTouchStart (example_player True) initial
           (example_event ''video'' [example_touch 7 110 120]))) = None"
  by (simp add: initial_def onTouchStart_def after_def)

theorem C1_touch_start_accepted_witness:
  "fakeTouchFinger example_idle = None \<and> isVideoReady (example_player True) \<and>
   videoElementParentClientRect example_idle = Some example_rect \<and>
   onTouchStart (example_player True) example_idle
     (example_event ''video'' [example_touch 7 110 120, example_touch 8 0 0]) =
   Inr (example_tracking,
        [DispatchEvent ''parent'' ''mouseenter'' (example_touch 7 110 120),
         Send ''MouseDown'' [0, 100, 100], PreventDefault])"
  using C1_touch_start_accepted [of example_idle "example_player True"
      "example_event ''video'' [example_touch 7 110 120, example_touch 8 0 0]" example_rect]
  by simp

text \<open>
  C6. In a state that tracks a finger, with the video ready, a touch-start whose target
  is the video element sends no message and dispatches no hover event (its only effect
  is suppressing the default behaviour) and leaves the object, and so the tracked
  finger's id, x and y, as it was.
\<close>

theorem C6_touch_start_while_tracking:
  assumes "fakeTouchFinger this = Some finger"
    and "isVideoReady c"
    and "target touch = getVideoElement c"
  shows "onTouchStart c this touch = Inr (this, [PreventDefault])"
  using assms by (simp add: onTouchStart_def)

theorem C6_touch_start_while_tracking_witness:
  "fakeTouchFinger example_tracking = Some example_finger \<and> isVideoReady (example_player True) \<and>
   onTouchStart (example_player True) example_tracking
     (example_event ''video'' [example_touch 8 50 60]) =
   Inr (example_tracking, [PreventDefault])"
  using C6_touch_start_while_tracking [of example_tracking example_finger "example_player True"
      "example_event ''video'' [example_touch 8 50 60]"]
  by simp

subsection \<open>Touch-move\<close>

text \<open>
  C2, as the code has it: in a state that tracks a finger and holds the cached rect
  \<open>rect\<close>, \<^emph>\<open>with the video ready\<close>, a touch-move none of whose \<open>touches\<close> has the
  tracked id sends no message and leaves the object as it was (the default behaviour is
  suppressed); a touch-move whose first touch with the tracked id is \<open>t\<close> sends exactly
  one \<open>MouseMove\<close> with payload \<open>[u.x, u.y, d.x, d.y]\<close>, where
  \<open>(newX, newY) = (t.clientX - rect.left, t.clientY - rect.top)\<close>,
  \<open>u = normalizeAndQuantizeUnsigned(newX, newY)\<close> and
  \<open>d = normalizeAndQuantizeSigned(newX - oldX, newY - oldY)\<close>, and stores
  \<open>(newX, newY)\<close> as the finger's position, the id unchanged.
\<close>

theorem C2_touch_move_when_ready:
  assumes "fakeTouchFinger this = Some finger"
    and "isVideoReady c"
    and "videoElementParentClientRect this = Some rect"
  shows "((\<forall>t\<in>set (touches ev). identifier t \<noteq> finger_id finger) \<longrightarrow>
            onTouchMove c this ev = Inr (this, [PreventDefault])) \<and>
         (\<forall>pre t post. touches ev = pre @ t # post \<and>
              (\<forall>u\<in>set pre. identifier u \<noteq> finger_id finger) \<and>
              identifier t = finger_id finger \<longrightarrow>
            onTouchMove c this ev =
              Inr (this\<lparr>fakeTouchFinger := Some
                      (finger\<lparr>finger_x := clientX t - rect_left rect,
                              finger_y := clientY t - rect_top rect\<rparr>)\<rparr>,
                   [Send ''MouseMove''
                      [fst (normalizeAndQuantizeUnsigned c
                              (clientX t - rect_left rect) (clientY t - rect_top rect)),
                       snd (normalizeAndQuantizeUnsigned c
                              (clientX t - rect_left rect) (clientY t - rect_top rect)),
                       fst (normalizeAndQuantizeSigned c
                              (clientX t - rect_left rect - finger_x finger)
                              (clientY t - rect_top rect - finger_y finger)),
                       snd (normalizeAndQuantizeSigned c
                              (clientX t - rect_left rect - finger_x finger)
                              (clientY t - rect_top rect - finger_y finger))],
                    PreventDefault]))"
proof (intro conjI allI impI)
  assume "\<forall>t\<in>set (touches ev). identifier t \<noteq> finger_id finger"
  then show "onTouchMove c this ev = Inr (this, [PreventDefault])"
    using assms by (simp add: onTouchMove_def onTouchMove_loop_no_match)
next
  fix pre t post
  assume "touches ev = pre @ t # post \<and>
     (\<forall>u\<in>set pre. identifier u \<noteq> finger_id finger) \<and> identifier t = finger_id finger"
  then show "onTouchMove c this ev =
              Inr (this\<lparr>fakeTouchFinger := Some
                      (finger\<lparr>finger_x := clientX t - rect_left rect,
                              finger_y := clientY t - rect_top rect\<rparr>)\<rparr>,
                   [Send ''MouseMove''
                      [fst (normalizeAndQuantizeUnsigned c
                              (clientX t - rect_left rect) (clientY t - rect_top rect)),
                       snd (normalizeAndQuantizeUnsigned c
                              (clientX t - rect_left rect) (clientY t - rect_top rect)),
                       fst (normalizeAndQuantizeSigned c
                              (clientX t - rect_left rect - finger_x finger)
                              (clientY t - rect_top rect - finger_y finger)),
                       snd (normalizeAndQuantizeSigned c
                              (clientX t - rect_left rect - finger_x finger)
                              (clientY t - rect_top rect - finger_y finger))],
                    PreventDefault])"
    using assms onTouchMove_loop_first_match [of pre finger t this rect c post]
    by (simp add: onTouchMove_def)
qed

text \<open>
  The claim without the readiness condition fails: finger 7 is tracked, the event carries
  a touch with identifier 7, the video is not ready, and nothing is sent or stored.
\<close>

theorem C2_touch_move_counterexample:
  "fakeTouchFinger example_tracking = Some example_finger \<and>
   identifier (example_touch 7 160 170) = finger_id example_finger \<and>
   onTouchMove (example_player False) example_tracking
     (example_event ''video'' [example_touch 7 160 170]) = Inr (example_tracking, [])"
  by (simp add: onTouchMove_def)

theorem C2_touch_move_when_ready_witness:
  "onTouchMove (example_player True) example_tracking
     (example_event ''video'' [example_touch 8 0 0]) = Inr (example_tracking, [PreventDefault]) \<and>
   onTouchMove (example_player True) example_tracking
     (example_event ''video'' [example_touch 8 0 0, example_touch 7 160 170, example_touch 7 1 1]) =
   Inr (\<lparr>fakeTouchFinger = Some \<lparr>finger_id = 7, finger_x = 150, finger_y = 150\<rparr>,
         videoElementParentClientRect = Some example_rect\<rparr>,
        [Send ''MouseMove'' [150, 150, 50, 50], PreventDefault])"
proof
  show "onTouchMove (example_player True) example_tracking
     (example_event ''video'' [example_touch 8 0 0]) = Inr (example_tracking, [PreventDefault])"
    using C2_touch_move_when_ready [of example_tracking example_finger "example_player True"
        example_rect "example_event ''video'' [example_touch 8 0 0]"]
    by simp
  show "onTouchMove (example_player True) example_tracking
     (example_event ''video'' [example_touch 8 0 0, example_touch 7 160 170, example_touch 7 1 1]) =
   Inr (\<lparr>fakeTouchFinger = Some \<lparr>finger_id = 7, finger_x = 150, finger_y = 150\<rparr>,
         videoElementParentClientRect = Some example_rect\<rparr>,
        [Send ''MouseMove'' [150, 150, 50, 50], PreventDefault])"
    using C2_touch_move_when_ready [of example_tracking example_finger "example_player True"
        example_rect
        "example_event ''video'' [example_touch 8 0 0, example_touch 7 160 170, example_touch 7 1 1]",
        THEN conjunct2, rule_format, of "[example_touch 8 0 0]" "example_touch 7 160 170"
        "[example_touch 7 1 1]"]
    by simp
qed

subsection \<open>Touch-end\<close>

text \<open>
  C3, as the code has it: in a state that tracks a finger and holds the cached rect
  \<open>rect\<close>, \<^emph>\<open>with the video ready\<close>, a touch-end none of whose \<open>changedTouches\<close> has
  the tracked id sends no message and leaves the object tracking. A touch-end whose
  first changed touch with the tracked id is \<open>t\<close> sends exactly one \<open>MouseUp\<close> with
  payload \<open>[mainButton, u.x, u.y]\<close>, \<open>u\<close> being \<open>normalizeAndQuantizeUnsigned\<close> of
  \<open>(t.clientX - rect.left, t.clientY - rect.top)\<close>, dispatches exactly one
  \<open>mouseleave\<close> built from \<open>t\<close> on the video's parent element and clears the tracked
  finger, whatever follows \<open>t\<close> in the list (the scan stops at \<open>t\<close>); from the state it
  leaves, a touch-start on the ready video with a changed touch is accepted again.
\<close>

theorem C3_touch_end_when_ready:
  fixes c :: "('n::minus, 'e) Collaborators"
  assumes "fakeTouchFinger this = Some finger"
    and "isVideoReady c"
    and "videoElementParentClientRect this = Some rect"
  shows "((\<forall>t\<in>set (changedTouches ev). identifier t \<noteq> finger_id finger) \<longrightarrow>
            onTouchEnd c this ev = Inr (this, [PreventDefault])) \<and>
         (\<forall>pre t post. changedTouches ev = pre @ t # post \<and>
              (\<forall>u\<in>set pre. identifier u \<noteq> finger_id finger) \<and>
              identifier t = finger_id finger \<longrightarrow>
            onTouchEnd c this ev =
              Inr (this\<lparr>fakeTouchFinger := None\<rparr>,
                   [Send ''MouseUp''
                      [mainButton c,
                       fst (normalizeAndQuantizeUnsigned c
                              (clientX t - rect_left rect) (clientY t - rect_top rect)),
                       snd (normalizeAndQuantizeUnsigned c
                              (clientX t - rect_left rect) (clientY t - rect_top rect))],
                    DispatchEvent (getVideoParentElement c) ''mouseleave'' t,
                    PreventDefault]) \<and>
            (\<forall>(c' :: ('n, 'e) Collaborators) touch'.
               isVideoReady c' \<and> target touch' = getVideoElement c' \<and>
               changedTouches touch' \<noteq> [] \<longrightarrow>
               fakeTouchFinger (after (this\<lparr>fakeTouchFinger := None\<rparr>)
                                  (onTouchStart c' (this\<lparr>fakeTouchFinger := None\<rparr>) touch')) =
               Some \<lparr>finger_id = identifier (hd (changedTouches touch')),
                     finger_x = clientX (hd (changedTouches touch')) - rect_left rect,
                     finger_y = clientY (hd (changedTouches touch')) - rect_top rect\<rparr>))"
proof (intro conjI allI impI)
  assume "\<forall>t\<in>set (changedTouches ev). identifier t \<noteq> finger_id finger"
  then show "onTouchEnd c this ev = Inr (this, [PreventDefault])"
    using assms by (simp add: onTouchEnd_def onTouchEnd_loop_no_match)
next
  fix pre t post
  assume "changedTouches ev = pre @ t # post \<and>
     (\<forall>u\<in>set pre. identifier u \<noteq> finger_id finger) \<and> identifier t = finger_id finger"
  then show "onTouchEnd c this ev =
              Inr (this\<lparr>fakeTouchFinger := None\<rparr>,
                   [Send ''MouseUp''
                      [mainButton c,
                       fst (normalizeAndQuantizeUnsigned c
                              (clientX t - rect_left rect) (clientY t - rect_top rect)),
                       snd (normalizeAndQuantizeUnsigned c
                              (clientX t - rect_left rect) (clientY t - rect_top rect))],
                    DispatchEvent (getVideoParentElement c) ''mouseleave'' t,
                    PreventDefault])"
    using assms onTouchEnd_loop_first_match [of pre finger t this rect c post]
    by (simp add: onTouchEnd_def)
next
  fix pre t post and c' :: "('n, 'e) Collaborators" and touch' :: "('n, 'e) TouchEvent"
  assume "isVideoReady c' \<and> target touch' = getVideoElement c' \<and> changedTouches touch' \<noteq> []"
  then show "fakeTouchFinger (after (this\<lparr>fakeTouchFinger := None\<rparr>)
                                  (onTouchStart c' (this\<lparr>fakeTouchFinger := None\<rparr>) touch')) =
               Some \<lparr>finger_id = identifier (hd (changedTouches touch')),
                     finger_x = clientX (hd (changedTouches touch')) - rect_left rect,
                     finger_y = clientY (hd (changedTouches touch')) - rect_top rect\<rparr>"
    using assms(3)
    by (cases "changedTouches touch'") (simp_all add: onTouchStart_def after_def Let_def)
qed

text \<open>
  The claim without the readiness condition fails: finger 7 is tracked, the event carries
  a changed touch with identifier 7, the video is not ready, and the finger stays
  tracked with nothing sent or dispatched.
\<close>

theorem C3_touch_end_counterexample:
  "fakeTouchFinger example_tracking = Some example_finger \<and>
   identifier (example_touch 7 160 170) = finger_id example_finger \<and>
   onTouchEnd (example_player False) example_tracking
     (example_event ''video'' [example_touch 7 160 170]) = Inr (example_tracking, [])"
  by (simp add: onTouchEnd_def)

theorem C3_touch_end_when_ready_witness:
  "onTouchEnd (example_player True) example_tracking
     (example_event ''video'' [example_touch 8 0 0]) = Inr (example_tracking, [PreventDefault]) \<and>
   onTouchEnd (example_player True) example_tracking
     (example_event ''video'' [example_touch 8 0 0, example_touch 7 160 170, example_touch 7 1 1]) =
   Inr (example_idle,
        [Send ''MouseUp'' [0, 150, 150],
         DispatchEvent ''parent'' ''mouseleave'' (example_touch 7 160 170),
         PreventDefault]) \<and>
   fakeTouchFinger (after example_idle
      (onTouchStart (example_player True) example_idle
         (example_event ''video'' [example_touch 9 30 50]))) =
   Some \<lparr>finger_id = 9, finger_x = 20, finger_y = 30\<rparr>"
proof (intro conjI)
  show "onTouchEnd (example_player True) example_tracking
     (example_event ''video'' [example_touch 8 0 0]) = Inr (example_tracking, [PreventDefault])"
    using C3_touch_end_when_ready [of example_tracking example_finger "example_player True"
        example_rect "example_event ''video'' [example_touch 8 0 0]"]
    by simp
  have m: "onTouchEnd (example_player True) example_tracking
     (example_event ''video'' [example_touch 8 0 0, example_touch 7 160 170, example_touch 7 1 1]) =
   Inr (example_idle,
        [Send ''MouseUp'' [0, 150, 150],
         DispatchEvent ''parent'' ''mouseleave'' (example_touch 7 160 170),
         PreventDefault]) \<and>
     (\<forall>(c' :: (int, string) Collaborators) touch'.
               isVideoReady c' \<and> target touch' = getVideoElement c' \<and>
               changedTouches touch' \<noteq> [] \<longrightarrow>
               fakeTouchFinger (after example_idle (onTouchStart c' example_idle touch')) =
               Some \<lparr>finger_id = identifier (hd (changedTouches touch')),
                     finger_x = clientX (hd (changedTouches touch')) - 10,
                     finger_y = clientY (hd (changedTouches touch')) - 20\<rparr>)"
    using C3_touch_end_when_ready [of example_tracking example_finger "example_player True"
        example_rect
        "example_event ''video'' [example_touch 8 0 0, example_touch 7 160 170, example_touch 7 1 1]",
        THEN conjunct2, rule_format, of "[example_touch 8 0 0]" "example_touch 7 160 170"
        "[example_touch 7 1 1]"]
    by simp
  from m show "onTouchEnd (example_player True) example_tracking
     (example_event ''video'' [example_touch 8 0 0, example_touch 7 160 170, example_touch 7 1 1]) =
   Inr (example_idle,
        [Send ''MouseUp'' [0, 150, 150],
         DispatchEvent ''parent'' ''mouseleave'' (example_touch 7 160 170),
         PreventDefault])"
    by simp
  from m [THEN conjunct2, rule_format, of "example_player True"
      "example_event ''video'' [example_touch 9 30 50]"]
  show "fakeTouchFinger (after example_idle
      (onTouchStart (example_player True) example_idle
         (example_event ''video'' [example_touch 9 30 50]))) =
   Some \<lparr>finger_id = 9, finger_x = 20, finger_y = 30\<rparr>"
    by simp
qed

subsection \<open>Suppressing the default behaviour\<close>

text \<open>
  C4, as the code has it: in every state the object can reach from its initial state
  in which a finger is tracked, \<^emph>\<open>when the video is ready\<close>, every touch-move and every
  touch-end ends with \<open>preventDefault()\<close>, whether or not a touch of the event has the
  tracked id.
\<close>

theorem C4_default_suppressed_when_ready:
  assumes "fakeTouchFinger (run initial calls) = Some finger"
    and "isVideoReady c"
  shows "(\<exists>this' effs. onTouchMove c (run initial calls) ev = Inr (this', effs @ [PreventDefault])) \<and>
         (\<exists>this' effs. onTouchEnd c (run initial calls) ev = Inr (this', effs @ [PreventDefault]))"
proof -
  have "videoElementParentClientRect (run initial calls) \<noteq> None"
    using assms(1) reachable_tracking_has_rect [of calls] by simp
  then show ?thesis
    using assms onTouchMove_suppresses onTouchEnd_suppresses by blast
qed

text \<open>
  The claim without the readiness condition fails: after \<open>example_calls\<close> finger 7 is
  tracked, and with the video not ready neither handler calls \<open>preventDefault()\<close>.
\<close>

theorem C4_default_not_suppressed_counterexample:
  "fakeTouchFinger (run initial example_calls) = Some example_finger \<and>
   onTouchMove (example_player False) (run initial example_calls)
     (example_event ''video'' [example_touch 7 160 170]) = Inr (example_tracking, []) \<and>
   onTouchEnd (example_player False) (run initial example_calls)
     (example_event ''video'' [example_touch 7 160 170]) = Inr (example_tracking, [])"
  by (simp add: initial_def after_def onTouchStart_def onTouchMove_def onTouchEnd_def
        setVideoElementParentClientRect_def Let_def)

theorem C4_default_suppressed_when_ready_witness:
  "fakeTouchFinger (run initial example_calls) = Some example_finger \<and>
   isVideoReady (example_player True) \<and>
   (\<exists>this' effs. onTouchMove (example_player True) (run initial example_calls)
        (example_event ''video'' [example_touch 8 0 0]) = Inr (this', effs @ [PreventDefault])) \<and>
   (\<exists>this' effs. onTouchEnd (example_player True) (run initial example_calls)
        (example_event ''video'' [example_touch 8 0 0]) = Inr (this', effs @ [PreventDefault]))"
proof -
  have f: "fakeTouchFinger (run initial example_calls) = Some example_finger"
    by (simp add: initial_def after_def onTouchStart_def onTouchMove_def onTouchEnd_def
        setVideoElementParentClientRect_def Let_def)
  have r: "isVideoReady (example_player True)" by simp
  show ?thesis
    using f r C4_default_suppressed_when_ready [OF f r,
        of "example_event ''video'' [example_touch 8 0 0]"]
    by blast
qed

text \<open>
  C9. In a state that tracks a finger, when the video is not ready every touch-move and
  every touch-end returns at once, whatever identifiers it carries: nothing is sent, the
  object is unchanged and \<open>preventDefault()\<close> is not called. So no sequence of
  touch-moves and touch-ends that all arrive while the video is not ready releases
  the finger.
\<close>

theorem C9_not_ready_while_tracking:
  fixes this :: "'n::minus TouchControllerFake"
  assumes "fakeTouchFinger this = Some finger"
  shows "(\<forall>(c :: ('n, 'e) Collaborators) ev. \<not> isVideoReady c \<longrightarrow>
            onTouchMove c this ev = Inr (this, []) \<and> onTouchEnd c this ev = Inr (this, [])) \<and>
         (\<forall>calls :: (('n, 'e) Collaborators \<times> ('n, 'e) call) list.
            (\<forall>(c, call)\<in>set calls. \<not> isVideoReady c \<and>
               (case call of TouchMove ev \<Rightarrow> True | TouchEnd ev \<Rightarrow> True | _ \<Rightarrow> False)) \<longrightarrow>
            run this calls = this \<and>
            outcomes this calls = replicate (length calls) (Inr (this, [])))"
proof (intro conjI allI impI)
  fix c :: "('n, 'e) Collaborators" and ev
  assume "\<not> isVideoReady c"
  then show "onTouchMove c this ev = Inr (this, [])" "onTouchEnd c this ev = Inr (this, [])"
    by (simp_all add: onTouchMove_def onTouchEnd_def)
next
  fix calls :: "(('n, 'e) Collaborators \<times> ('n, 'e) call) list"
  assume a: "\<forall>(c, call)\<in>set calls. \<not> isVideoReady c \<and>
               (case call of TouchMove ev \<Rightarrow> True | TouchEnd ev \<Rightarrow> True | _ \<Rightarrow> False)"
  have "run this calls = this \<and> outcomes this calls = replicate (length calls) (Inr (this, []))"
    using a by (intro ignored_calls) (auto split: call.splits)
  then show "run this calls = this"
    "outcomes this calls = replicate (length calls) (Inr (this, []))"
    by simp_all
qed

theorem C9_not_ready_while_tracking_witness:
  "fakeTouchFinger example_tracking = Some example_finger \<and>
   onTouchMove (example_player False) example_tracking
     (example_event ''video'' [example_touch 7 160 170]) = Inr (example_tracking, []) \<and>
   onTouchEnd (example_player False) example_tracking
     (example_event ''video'' [example_touch 7 160 170]) = Inr (example_tracking, []) \<and>
   run example_tracking
     [(example_player False, TouchMove (example_event ''video'' [example_touch 7 160 170])),
      (example_player False, TouchEnd (example_event ''video'' [example_touch 7 160 170]))] =
   example_tracking"
proof -
  have f: "fakeTouchFinger example_tracking = Some example_finger" by simp
  note t = C9_not_ready_while_tracking [OF f]
  have "onTouchMove (example_player False) example_tracking
     (example_event ''video'' [example_touch 7 160 170]) = Inr (example_tracking, []) \<and>
   onTouchEnd (example_player False) example_tracking
     (example_event ''video'' [example_touch 7 160 170]) = Inr (example_tracking, [])"
    using t [THEN conjunct1, rule_format, of "example_player False"
        "example_event ''video'' [example_touch 7 160 170]"]
    by simp
  moreover have "run example_tracking
     [(example_player False, TouchMove (example_event ''video'' [example_touch 7 160 170])),
      (example_player False, TouchEnd (example_event ''video'' [example_touch 7 160 170]))] =
   example_tracking"
  proof -
    let ?calls = "[(example_player False, TouchMove (example_event ''video'' [example_touch 7 160 170])),
      (example_player False, TouchEnd (example_event ''video'' [example_touch 7 160 170]))]"
    have pre: "\<forall>(c, call)\<in>set ?calls. \<not> isVideoReady c \<and>
        (case call of TouchMove ev \<Rightarrow> True | TouchEnd ev \<Rightarrow> True | _ \<Rightarrow> False)"
      by simp
    show ?thesis
      using t [THEN conjunct2, THEN spec, of ?calls] pre by blast
  qed
  ultimately show ?thesis by simp
qed

subsection \<open>Ignored events\<close>

text \<open>
  C7. From a state that tracks no finger, a sequence of calls each of which is a
  touch-start whose target is not the video element or that arrives while the video is
  not ready, or a touch-move, or a touch-end, leaves the object as it was, and every one
  of the calls returns with no effect at all: no message, no hover event, no
  \<open>preventDefault()\<close>.
\<close>

theorem C7_guarded_out_calls_are_no_ops:
  assumes "fakeTouchFinger this = None"
    and "\<forall>(c, call)\<in>set calls.
           (case call of
              TouchStart ev \<Rightarrow> \<not> isVideoReady c \<or> target ev \<noteq> getVideoElement c
            | TouchMove ev \<Rightarrow> True
            | TouchEnd ev \<Rightarrow> True
            | SetRect rect \<Rightarrow> False)"
  shows "run this calls = this \<and>
         outcomes this calls = replicate (length calls) (Inr (this, []))"
  using assms by (intro ignored_calls) auto

theorem C7_guarded_out_calls_are_no_ops_witness:
  "fakeTouchFinger example_idle = None \<and>
   run example_idle
     [(example_player True, TouchStart (example_event ''page'' [example_touch 7 110 120])),
      (example_player False, TouchStart (example_event ''video'' [example_touch 7 110 120])),
      (example_player True, TouchMove (example_event ''video'' [example_touch 7 160 170])),
      (example_player True, TouchEnd (example_event ''video'' [example_touch 7 160 170]))] =
   example_idle \<and>
   outcomes example_idle
     [(example_player True, TouchStart (example_event ''page'' [example_touch 7 110 120])),
      (example_player False, TouchStart (example_event ''video'' [example_touch 7 110 120])),
      (example_player True, TouchMove (example_event ''video'' [example_touch 7 160 170])),
      (example_player True, TouchEnd (example_event ''video'' [example_touch 7 160 170]))] =
   [Inr (example_idle, []), Inr (example_idle, []), Inr (example_idle, []), Inr (example_idle, [])]"
proof -
  let ?calls =
     "[(example_player True, TouchStart (example_event ''page'' [example_touch 7 110 120])),
      (example_player False, TouchStart (example_event ''video'' [example_touch 7 110 120])),
      (example_player True, TouchMove (example_event ''video'' [example_touch 7 160 170])),
      (example_player True, TouchEnd (example_event ''video'' [example_touch 7 160 170]))]"
  have f: "fakeTouchFinger example_idle = None" by simp
  have pre: "\<forall>(c, call)\<in>set ?calls.
           (case call of
              TouchStart ev \<Rightarrow> \<not> isVideoReady c \<or> target ev \<noteq> getVideoElement c
            | TouchMove ev \<Rightarrow> True
            | TouchEnd ev \<Rightarrow> True
            | SetRect rect \<Rightarrow> False)"
    by simp
  have "run example_idle ?calls = example_idle \<and>
        outcomes example_idle ?calls = replicate (length ?calls) (Inr (example_idle, []))"
    using C7_guarded_out_calls_are_no_ops [OF f pre] .
  then show ?thesis
    by (simp add: after_def onTouchStart_def onTouchMove_def onTouchEnd_def)
qed

subsection \<open>The tracked finger over a run\<close>

text \<open>
  C5. The object holds at most one finger (the field is one optional value). After any
  sequence of calls from the initial state, if a finger is tracked then some call \<open>k\<close>
  of the sequence is a touch-start that arrived when no finger was tracked, its first
  changed touch has the tracked finger's id, and after every later call a finger with
  that same id was tracked. No touch-move changes the id of a tracked finger or clears
  it, and a call that clears a tracked finger is a touch-end one of whose changed
  touches has the finger's id.
\<close>

theorem C5_single_finger_identity:
  fixes calls :: "(('n::minus, 'e) Collaborators \<times> ('n, 'e) call) list"
  shows
  "(\<forall>finger. fakeTouchFinger (run initial calls) = Some finger \<longrightarrow>
      (\<exists>k c ev. k < length calls \<and> calls ! k = (c, TouchStart ev) \<and>
         fakeTouchFinger (run initial (take k calls)) = None \<and>
         changedTouches ev \<noteq> [] \<and>
         identifier (hd (changedTouches ev)) = finger_id finger \<and>
         (\<forall>j. k < j \<and> j \<le> length calls \<longrightarrow>
            (\<exists>g. fakeTouchFinger (run initial (take j calls)) = Some g \<and>
                 finger_id g = finger_id finger)))) \<and>
   (\<forall>this finger (c :: ('n, 'e) Collaborators) ev. fakeTouchFinger this = Some finger \<longrightarrow>
      (\<exists>g. fakeTouchFinger (after this (onTouchMove c this ev)) = Some g \<and>
           finger_id g = finger_id finger)) \<and>
   (\<forall>this finger (c :: ('n, 'e) Collaborators) call.
      fakeTouchFinger this = Some finger \<and>
      fakeTouchFinger (after this (handle c this call)) = None \<longrightarrow>
      (\<exists>ev. call = TouchEnd ev \<and>
         (\<exists>t\<in>set (changedTouches ev). identifier t = finger_id finger)))"
proof (intro conjI allI impI)
  fix finger
  assume "fakeTouchFinger (run initial calls) = Some finger"
  then show "\<exists>k c ev. k < length calls \<and> calls ! k = (c, TouchStart ev) \<and>
         fakeTouchFinger (run initial (take k calls)) = None \<and>
         changedTouches ev \<noteq> [] \<and>
         identifier (hd (changedTouches ev)) = finger_id finger \<and>
         (\<forall>j. k < j \<and> j \<le> length calls \<longrightarrow>
            (\<exists>g. fakeTouchFinger (run initial (take j calls)) = Some g \<and>
                 finger_id g = finger_id finger))"
    by (rule tracked_finger_origin)
next
  fix this :: "'n TouchControllerFake" and finger and c :: "('n, 'e) Collaborators" and ev
  assume "fakeTouchFinger this = Some finger"
  then show "\<exists>g. fakeTouchFinger (after this (onTouchMove c this ev)) = Some g \<and>
           finger_id g = finger_id finger"
    by (rule onTouchMove_keeps_id)
next
  fix this :: "'n TouchControllerFake" and finger and c :: "('n, 'e) Collaborators" and call
  assume "fakeTouchFinger this = Some finger \<and>
      fakeTouchFinger (after this (handle c this call)) = None"
  then show "\<exists>ev. call = TouchEnd ev \<and>
         (\<exists>t\<in>set (changedTouches ev). identifier t = finger_id finger)"
    using handle_release by blast
qed

theorem C5_single_finger_identity_witness:
  "fakeTouchFinger (run initial
      (example_calls @
       [(example_player True, TouchMove (example_event ''video'' [example_touch 7 160 170]))])) =
     Some \<lparr>finger_id = 7, finger_x = 150, finger_y = 150\<rparr> \<and>
   (\<exists>k c ev. k < 3 \<and>
      (example_calls @
       [(example_player True, TouchMove (example_event ''video'' [example_touch 7 160 170]))]) ! k =
        (c, TouchStart ev) \<and>
      changedTouches ev \<noteq> [] \<and> identifier (hd (changedTouches ev)) = 7)"
proof -
  let ?calls = "example_calls @
       [(example_player True, TouchMove (example_event ''video'' [example_touch 7 160 170]))]"
  have f: "fakeTouchFinger (run initial ?calls) =
     Some \<lparr>finger_id = 7, finger_x = 150, finger_y = 150\<rparr>"
    by (simp add: initial_def after_def onTouchStart_def onTouchMove_def onTouchEnd_def
        setVideoElementParentClientRect_def Let_def)
  from C5_single_finger_identity [of ?calls, THEN conjunct1, rule_format, OF f]
  obtain k c ev where "k < length ?calls" "?calls ! k = (c, TouchStart ev)"
    "changedTouches ev \<noteq> []" "identifier (hd (changedTouches ev)) = 7"
    by auto
  then have "\<exists>k c ev. k < 3 \<and> ?calls ! k = (c, TouchStart ev) \<and>
      changedTouches ev \<noteq> [] \<and> identifier (hd (changedTouches ev)) = 7"
    by (intro exI [of _ k] exI [of _ c] exI [of _ ev]) simp
  with f show ?thesis by blast
qed

subsection \<open>The scenario\<close>

text \<open>
  C8. With the cached rect set to \<open>left = 10\<close>, \<open>top = 20\<close> and the video ready, a
  touch-start on the video at client \<open>(110, 120)\<close>, a touch-move of the same identifier
  to \<open>(160, 170)\<close> and a touch-end of it at \<open>(160, 170)\<close> send, in this order and
  nothing else, \<open>MouseDown\<close> at \<open>normalizeAndQuantizeUnsigned(100, 100)\<close>, \<open>MouseMove\<close>
  at \<open>normalizeAndQuantizeUnsigned(150, 150)\<close> with delta
  \<open>normalizeAndQuantizeSigned(50, 50)\<close>, and \<open>MouseUp\<close> at
  \<open>normalizeAndQuantizeUnsigned(150, 150)\<close>; no finger is tracked at the end. The
  coordinates are integers, on which the subtraction of JavaScript numbers is exact.
\<close>

theorem C8_scenario:
  fixes nu ns :: "int \<Rightarrow> int \<Rightarrow> int \<times> int"
  shows
  "map messages
     (outcomes (setVideoElementParentClientRect \<lparr>rect_left = 10, rect_top = 20\<rparr> initial)
        [(ready_player v p nu ns mb, TouchStart (example_event v [example_touch i 110 120])),
         (ready_player v p nu ns mb, TouchMove (example_event v [example_touch i 160 170])),
         (ready_player v p nu ns mb, TouchEnd (example_event v [example_touch i 160 170]))]) =
   [[Send ''MouseDown'' [mb, fst (nu 100 100), snd (nu 100 100)]],
    [Send ''MouseMove'' [fst (nu 150 150), snd (nu 150 150), fst (ns 50 50), snd (ns 50 50)]],
    [Send ''MouseUp'' [mb, fst (nu 150 150), snd (nu 150 150)]]] \<and>
   fakeTouchFinger
     (run (setVideoElementParentClientRect \<lparr>rect_left = 10, rect_top = 20\<rparr> initial)
        [(ready_player v p nu ns mb, TouchStart (example_event v [example_touch i 110 120])),
         (ready_player v p nu ns mb, TouchMove (example_event v [example_touch i 160 170])),
         (ready_player v p nu ns mb, TouchEnd (example_event v [example_touch i 160 170]))]) =
   None"
  by (simp add: messages_def after_def onTouchStart_def onTouchMove_def onTouchEnd_def Let_def
        initial_def setVideoElementParentClientRect_def)

theorem C8_scenario_witness:
  "map messages
     (outcomes (setVideoElementParentClientRect example_rect initial)
        [(example_player True, TouchStart (example_event ''video'' [example_touch 7 110 120])),
         (example_player True, TouchMove (example_event ''video'' [example_touch 7 160 170])),
         (example_player True, TouchEnd (example_event ''video'' [example_touch 7 160 170]))]) =
   [[Send ''MouseDown'' [0, 100, 100]],
    [Send ''MouseMove'' [150, 150, 50, 50]],
    [Send ''MouseUp'' [0, 150, 150]]] \<and>
   fakeTouchFinger
     (run (setVideoElementParentClientRect example_rect initial)
        [(example_player True, TouchStart (example_event ''video'' [example_touch 7 110 120])),
         (example_player True, TouchMove (example_event ''video'' [example_touch 7 160 170])),
         (example_player True, TouchEnd (example_event ''video'' [example_touch 7 160 170]))]) =
   None"
  using C8_scenario [of "''video''" "''parent''" Pair Pair 0 7]
  by simp

subsection \<open>Reading the cached rect\<close>

text \<open>
  C10. In a sequence of calls from the initial state in which
  \<open>setVideoElementParentClientRect\<close> is called before the first touch event that passes
  its handler's guards, no call raises on an unset rect. In a state with no rect set and
  no finger tracked, a touch-start on the ready video with a changed touch does not
  return silently: it raises at the read of the unset rect.
\<close>

theorem C10_rect_read_only_when_set:
  fixes calls :: "(('n::minus, 'e) Collaborators \<times> ('n, 'e) call) list"
  shows "(rect_set_before_guarded_touch initial calls \<longrightarrow>
            Inl ClientRectUndefined \<notin> set (outcomes initial calls)) \<and>
         (\<forall>this (c :: ('n, 'e) Collaborators) touch.
            videoElementParentClientRect this = None \<and> fakeTouchFinger this = None \<and>
            isVideoReady c \<and> target touch = getVideoElement c \<and> changedTouches touch \<noteq> [] \<longrightarrow>
            onTouchStart c this touch = Inl ClientRectUndefined)"
proof (intro conjI allI impI)
  assume "rect_set_before_guarded_touch initial calls"
  then show "Inl ClientRectUndefined \<notin> set (outcomes initial calls)"
    by (intro no_rect_error_before_set) (simp_all add: initial_def)
next
  fix this :: "'n TouchControllerFake" and c :: "('n, 'e) Collaborators"
    and touch :: "('n, 'e) TouchEvent"
  assume "videoElementParentClientRect this = None \<and> fakeTouchFinger this = None \<and>
            isVideoReady c \<and> target touch = getVideoElement c \<and> changedTouches touch \<noteq> []"
  then show "onTouchStart c this touch = Inl ClientRectUndefined"
    by (cases "changedTouches touch") (simp_all add: onTouchStart_def)
qed

theorem C10_rect_read_only_when_set_witness:
  "rect_set_before_guarded_touch initial
     ((example_player True, TouchStart (example_event ''page'' [example_touch 7 110 120])) #
      (example_player True, TouchEnd (example_event ''video'' [example_touch 7 110 120])) #
      example_calls) \<and>
   Inl ClientRectUndefined \<notin> set (outcomes initial
     ((example_player True, TouchStart (example_event ''page'' [example_touch 7 110 120])) #
      (example_player True, TouchEnd (example_event ''video'' [example_touch 7 110 120])) #
      example_calls)) \<and>
   onTouchStart (example_player True) initial
     (example_event ''video'' [example_touch 7 110 120]) = Inl ClientRectUndefined"
proof -
  let ?calls = "(example_player True, TouchStart (example_event ''page'' [example_touch 7 110 120])) #
      (example_player True, TouchEnd (example_event ''video'' [example_touch 7 110 120])) #
      example_calls"
  note t = C10_rect_read_only_when_set [of ?calls]
  have p: "rect_set_before_guarded_touch initial ?calls"
    by (simp add: initial_def after_def onTouchStart_def onTouchEnd_def)
  have "Inl ClientRectUndefined \<notin> set (outcomes initial ?calls)"
    using t [THEN conjunct1] p by blast
  moreover have "onTouchStart (example_player True) initial
     (example_event ''video'' [example_touch 7 110 120]) = Inl ClientRectUndefined"
    using t [THEN conjunct2, rule_format, of initial "example_player True"
        "example_event ''video'' [example_touch 7 110 120]"]
    by (simp add: initial_def)
  ultimately show ?thesis using p by blast
qed

end
